theory Spec2Isabelle
  imports Main "HOL-Library.AList"
begin

section \<open>Values and errors\<close>

text \<open>
  A shallow embedding of \<^verbatim>\<open>cookiecutter/generate.py\<close>.  What the parsers return is a
  JSON/YAML value; a mapping is an association list, because the source asks for
  \<^verbatim>\<open>OrderedDict\<close>.  Numbers are integers here: no function of the module looks
  inside a value.
\<close>

datatype jval =
    JNull
  | JBool bool
  | JNum int
  | JStr string
  | JList "jval list"
  | JObj "(string \<times> jval) list"

type_synonym dict = "(string \<times> jval) list"

text \<open>
  Every \<^verbatim>\<open>raise\<close> of the module and of what it calls is a value of \<open>error\<close>.
  \<open>TemplateSyntaxError\<close> carries its \<^verbatim>\<open>translated\<close> attribute, which
  \<^verbatim>\<open>generate_file\<close> overwrites, and its message.  \<open>Raised\<close> is any other
  exception of an external collaborator (parser, template engine, hook), by class name.
\<close>

datatype error =
    NonTemplatedInputDirException
  | IOError
  | OSError
  | ShutilError
  | AttributeError
  | TemplateNotFound
  | TemplateSyntaxError bool string
  | Raised string

section \<open>The platform: POSIX paths\<close>

text \<open>
  The module computes with \<^verbatim>\<open>os.path\<close>.  The functions below are those of CPython's
  \<^verbatim>\<open>posixpath\<close> (\<^verbatim>\<open>os.path.sep\<close> is \<^verbatim>\<open>/\<close>), on strings.
\<close>

definition os_path_sep :: char where
  "os_path_sep = CHR ''/''"

text \<open>\<^verbatim>\<open>(p[:i], p[i:])\<close> for \<^verbatim>\<open>i = p.rfind('/') + 1\<close>.\<close>

definition rpartition_sep :: "string \<Rightarrow> string \<times> string" where
  "rpartition_sep p =
     (rev (dropWhile (\<lambda>c. c \<noteq> os_path_sep) (rev p)),
      rev (takeWhile (\<lambda>c. c \<noteq> os_path_sep) (rev p)))"

definition rstrip_sep :: "string \<Rightarrow> string" where
  "rstrip_sep p = rev (dropWhile (\<lambda>c. c = os_path_sep) (rev p))"

definition os_path_isabs :: "string \<Rightarrow> bool" where
  "os_path_isabs p = (case p of [] \<Rightarrow> False | c # _ \<Rightarrow> c = os_path_sep)"

definition os_path_join :: "string \<Rightarrow> string \<Rightarrow> string" where
  "os_path_join a b =
     (if os_path_isabs b then b
      else if a = [] \<or> last a = os_path_sep then a @ b
      else a @ [os_path_sep] @ b)"

definition os_path_split :: "string \<Rightarrow> string \<times> string" where
  "os_path_split p =
     (let (head, tail) = rpartition_sep p
      in (if head \<noteq> [] \<and> \<not> list_all (\<lambda>c. c = os_path_sep) head
          then rstrip_sep head else head, tail))"

definition os_path_basename :: "string \<Rightarrow> string" where
  "os_path_basename p = snd (rpartition_sep p)"

text \<open>
  \<^verbatim>\<open>splitext\<close>: the extension starts at the last dot of the last component, unless
  only dots stand before it.
\<close>

definition os_path_splitext :: "string \<Rightarrow> string \<times> string" where
  "os_path_splitext p =
     (let (head, tail) = rpartition_sep p
      in if CHR ''.'' \<in> set tail
         then let stem = rev (drop 1 (dropWhile (\<lambda>c. c \<noteq> CHR ''.'') (rev tail)));
                  ext = CHR ''.'' # rev (takeWhile (\<lambda>c. c \<noteq> CHR ''.'') (rev tail))
              in if list_ex (\<lambda>c. c \<noteq> CHR ''.'') stem then (head @ stem, ext) else (p, [])
         else (p, []))"

fun str_split :: "char \<Rightarrow> string \<Rightarrow> string list" where
  "str_split sep [] = [[]]"
| "str_split sep (c # cs) =
     (if c = sep then [] # str_split sep cs
      else (case str_split sep cs of [] \<Rightarrow> [[c]] | w # ws \<Rightarrow> (c # w) # ws))"

fun str_join :: "string \<Rightarrow> string list \<Rightarrow> string" where
  "str_join sep [] = []"
| "str_join sep [w] = w"
| "str_join sep (w # v # ws) = w @ sep @ str_join sep (v # ws)"

text \<open>The loop of \<^verbatim>\<open>normpath\<close> over the components, \<open>acc\<close> being \<^verbatim>\<open>new_comps\<close>.\<close>

fun norm_comps :: "nat \<Rightarrow> string list \<Rightarrow> string list \<Rightarrow> string list" where
  "norm_comps initial_slashes [] acc = acc"
| "norm_comps initial_slashes (part # parts) acc =
     (if part = [] \<or> part = ''.'' then norm_comps initial_slashes parts acc
      else if part \<noteq> ''..'' \<or> (initial_slashes = 0 \<and> acc = []) \<or> (acc \<noteq> [] \<and> last acc = ''..'')
        then norm_comps initial_slashes parts (acc @ [part])
      else if acc \<noteq> [] then norm_comps initial_slashes parts (butlast acc)
      else norm_comps initial_slashes parts acc)"

definition os_path_normpath :: "string \<Rightarrow> string" where
  "os_path_normpath path =
     (if path = [] then ''.''
      else let initial_slashes =
                 (if os_path_isabs path
                  then (if take 2 path = ''//'' \<and> take 3 path \<noteq> ''///'' then 2 else 1)
                  else (0::nat));
               comps = norm_comps initial_slashes (str_split os_path_sep path) [];
               joined = replicate initial_slashes os_path_sep @ str_join [os_path_sep] comps
           in if joined = [] then ''.'' else joined)"



text \<open>\<^verbatim>\<open>abspath\<close> reads the working directory, so it takes it as an argument.\<close>

definition os_path_abspath :: "string \<Rightarrow> string \<Rightarrow> string" where
  "os_path_abspath wd path =
     os_path_normpath (if os_path_isabs path then path else os_path_join wd path)"

text \<open>The \<^verbatim>\<open>in\<close> operator on strings, and \<^verbatim>\<open>str.replace\<close> of one character.\<close>

fun str_in :: "string \<Rightarrow> string \<Rightarrow> bool" where
  "str_in sub [] = (sub = [])"
| "str_in sub (c # cs) = (take (length sub) (c # cs) = sub \<or> str_in sub cs)"

definition str_replace :: "char \<Rightarrow> char \<Rightarrow> string \<Rightarrow> string" where
  "str_replace old new s = map (\<lambda>c. if c = old then new else c) s"

section \<open>The platform: files\<close>

text \<open>
  A file has content and permission bits, a directory has permission bits.  The file
  system is an association list from normalised absolute paths to nodes, in listing
  order, and the process has a working directory.  There are no symbolic links and no
  hard links, directories can always be searched and written, and the disk is never full.
\<close>

datatype node = File string nat | Dir nat

record state =
  fs :: "(string \<times> node) list"
  cwd :: string

text \<open>
  What the module calls and this repository's sources do not define is a parameter:
  the two parsers, the Jinja2 engine (compiling a template source, rendering a
  \<^verbatim>\<open>Template\<close> built from a string, rendering a template of the
  \<^verbatim>\<open>Environment\<close> whose loader reads the working directory), the content test of
  \<^verbatim>\<open>binaryornot\<close>, \<^verbatim>\<open>find_template\<close> and \<^verbatim>\<open>run_hook\<close> of the
  sibling modules, and the operating system's permission checks and creation modes.
\<close>

record externals =
  json_load :: "string \<Rightarrow> error + jval"
  yaml_load :: "string \<Rightarrow> error + jval"
  jinja_compile :: "string \<Rightarrow> error option"
  template_render :: "string \<Rightarrow> dict \<Rightarrow> error + string"
  env_render :: "state \<Rightarrow> string \<Rightarrow> dict \<Rightarrow> error + string"
  binary_content :: "string \<Rightarrow> bool"
  find_template :: "string \<Rightarrow> state \<Rightarrow> error + string"
  run_hook :: "string \<Rightarrow> string \<Rightarrow> state \<Rightarrow> (error + unit) \<times> state"
  may_read :: "nat \<Rightarrow> bool"
  may_write :: "nat \<Rightarrow> bool"
  new_file_mode :: nat
  new_dir_mode :: nat

definition lookup :: "state \<Rightarrow> string \<Rightarrow> node option" where
  "lookup s p = (if p = [] then None else map_of (fs s) (os_path_abspath (cwd s) p))"

definition os_path_exists :: "state \<Rightarrow> string \<Rightarrow> bool" where
  "os_path_exists s p = (lookup s p \<noteq> None)"

definition os_path_isdir :: "state \<Rightarrow> string \<Rightarrow> bool" where
  "os_path_isdir s p = (case lookup s p of Some (Dir _) \<Rightarrow> True | _ \<Rightarrow> False)"

text \<open>\<^verbatim>\<open>open(p)\<close> followed by reading the whole file.\<close>

definition open_read :: "externals \<Rightarrow> state \<Rightarrow> string \<Rightarrow> error + string" where
  "open_read ext s p =
     (case lookup s p of
        None \<Rightarrow> Inl IOError
      | Some (Dir _) \<Rightarrow> Inl IOError
      | Some (File content mode) \<Rightarrow> if may_read ext mode then Inr content else Inl IOError)"

section \<open>generate\_context\<close>

text \<open>
  \<^verbatim>\<open>context.update(default_context)\<close> on an ordered mapping: each pair of the
  argument, in order, replaces the value of a key that is present and is appended
  otherwise.
\<close>

definition dict_update :: "dict \<Rightarrow> dict \<Rightarrow> dict" where
  "dict_update d other = fold (\<lambda>(k, v). AList.update k v) other d"

text \<open>Lines 60 to 64: the default file name and the fallback to \<^verbatim>\<open>cookiecutter.yml\<close>.\<close>

definition resolve_context_file :: "state \<Rightarrow> string option \<Rightarrow> string" where
  "resolve_context_file s context_file =
     (let context_file1 = (case context_file of None \<Rightarrow> ''cookiecutter.json'' | Some f \<Rightarrow> f)
      in if \<not> os_path_exists s context_file1 \<and> os_path_exists s ''cookiecutter.yml''
         then ''cookiecutter.yml'' else context_file1)"

text \<open>
  Lines 66 to 78: the file is opened whatever its name, and parsed by the parser its
  extension selects; with any other extension \<^verbatim>\<open>context\<close> stays \<^verbatim>\<open>{}\<close>.
\<close>

definition load_context :: "externals \<Rightarrow> state \<Rightarrow> string \<Rightarrow> error + jval" where
  "load_context ext s context_file =
     (let (file_stem, file_ext) = os_path_splitext (os_path_basename context_file)
      in case open_read ext s context_file of
           Inl e \<Rightarrow> Inl e
         | Inr file_handle \<Rightarrow>
             if file_ext = ''.json'' then json_load ext file_handle
             else if file_ext = ''.yml'' then yaml_load ext file_handle
             else Inr (JObj []))"

text \<open>
  Lines 80 to 86.  \<^verbatim>\<open>if default_context:\<close> is false for \<^verbatim>\<open>None\<close> and for the
  empty mapping; \<^verbatim>\<open>update\<close> is a method of mappings only.
\<close>

definition apply_default_context :: "jval \<Rightarrow> dict option \<Rightarrow> error + jval" where
  "apply_default_context context default_context =
     (case default_context of
        None \<Rightarrow> Inr context
      | Some other \<Rightarrow>
          if other = [] then Inr context
          else (case context of
                  JObj d \<Rightarrow> Inr (JObj (dict_update d other))
                | _ \<Rightarrow> Inl AttributeError))"

definition generate_context :: "externals \<Rightarrow> string option \<Rightarrow> dict option \<Rightarrow> state \<Rightarrow> error + jval" where
  "generate_context ext context_file default_context s =
     (case load_context ext s (resolve_context_file s context_file) of
        Inl e \<Rightarrow> Inl e
      | Inr context \<Rightarrow> apply_default_context context default_context)"

section \<open>Writing files and creating directories\<close>

text \<open>
  \<^verbatim>\<open>open(p, 'w')\<close>, one \<^verbatim>\<open>write\<close> and the close: an existing file keeps its
  permission bits, a new one gets the creation mode, and its directory must exist.
\<close>

definition write_file :: "externals \<Rightarrow> string \<Rightarrow> string \<Rightarrow> state \<Rightarrow> (error + unit) \<times> state" where
  "write_file ext p content s =
     (let key = os_path_abspath (cwd s) p
      in case lookup s p of
           Some (Dir _) \<Rightarrow> (Inl IOError, s)
         | Some (File _ mode) \<Rightarrow>
             if may_write ext mode
             then (Inr (), s\<lparr>fs := AList.update key (File content mode) (fs s)\<rparr>)
             else (Inl IOError, s)
         | None \<Rightarrow>
             if p \<noteq> [] \<and> os_path_isdir s (fst (os_path_split key))
             then (Inr (), s\<lparr>fs := AList.update key (File content (new_file_mode ext)) (fs s)\<rparr>)
             else (Inl IOError, s))"

text \<open>
  \<^verbatim>\<open>shutil.copyfile\<close> refuses to copy a file onto itself, then reads the source and
  writes the destination.  \<^verbatim>\<open>shutil.copymode\<close> reads the permission bits of the
  source and sets them on the destination.
\<close>

definition shutil_copyfile :: "externals \<Rightarrow> string \<Rightarrow> string \<Rightarrow> state \<Rightarrow> (error + unit) \<times> state" where
  "shutil_copyfile ext src dst s =
     (if os_path_exists s src \<and> os_path_exists s dst
         \<and> os_path_abspath (cwd s) src = os_path_abspath (cwd s) dst
      then (Inl ShutilError, s)
      else case open_read ext s src of
             Inl e \<Rightarrow> (Inl e, s)
           | Inr content \<Rightarrow> write_file ext dst content s)"

fun node_mode :: "node \<Rightarrow> nat" where
  "node_mode (File content mode) = mode"
| "node_mode (Dir mode) = mode"

fun chmod :: "nat \<Rightarrow> node \<Rightarrow> node" where
  "chmod mode (File content old) = File content mode"
| "chmod mode (Dir old) = Dir mode"

definition shutil_copymode :: "string \<Rightarrow> string \<Rightarrow> state \<Rightarrow> (error + unit) \<times> state" where
  "shutil_copymode src dst s =
     (case lookup s src of
        None \<Rightarrow> (Inl OSError, s)
      | Some n \<Rightarrow>
          (case lookup s dst of
             None \<Rightarrow> (Inl OSError, s)
           | Some d \<Rightarrow>
               (Inr (), s\<lparr>fs := AList.update (os_path_abspath (cwd s) dst) (chmod (node_mode n) d) (fs s)\<rparr>)))"

text \<open>The proper ancestors of a path, outermost first, by splitting off the last component.\<close>

function parents :: "string \<Rightarrow> string list" where
  "parents p =
     (if snd (os_path_split p) = [] \<or> fst (os_path_split p) = [] then []
      else parents (fst (os_path_split p)) @ [fst (os_path_split p)])"
  by pat_completeness auto
termination
proof (relation "measure length")
  show "wf (measure length)" by simp
next
  fix p :: string
  assume a: "\<not> (snd (os_path_split p) = [] \<or> fst (os_path_split p) = [])"
  let ?P = "\<lambda>c. c \<noteq> os_path_sep"
  have tail: "takeWhile ?P (rev p) \<noteq> []"
    using a by (simp add: os_path_split_def rpartition_sep_def)
  have "length (takeWhile ?P (rev p)) + length (dropWhile ?P (rev p)) = length p"
    by (metis length_append length_rev takeWhile_dropWhile_id)
  with tail have short: "length (dropWhile ?P (rev p)) < length p"
    by (cases "takeWhile ?P (rev p)") auto
  have "length (fst (os_path_split p)) \<le> length (dropWhile ?P (rev p))"
    by (simp add: os_path_split_def rpartition_sep_def rstrip_sep_def length_dropWhile_le)
  with short show "(fst (os_path_split p), p) \<in> measure length" by simp
qed

declare parents.simps [simp del]

definition mkdir_if_missing :: "externals \<Rightarrow> string \<Rightarrow> state \<Rightarrow> (error + unit) \<times> state" where
  "mkdir_if_missing ext key s =
     (case map_of (fs s) key of
        None \<Rightarrow> (Inr (), s\<lparr>fs := AList.update key (Dir (new_dir_mode ext)) (fs s)\<rparr>)
      | Some (Dir _) \<Rightarrow> (Inr (), s)
      | Some (File _ _) \<Rightarrow> (Inl OSError, s))"

fun make_dirs :: "externals \<Rightarrow> string list \<Rightarrow> state \<Rightarrow> (error + unit) \<times> state" where
  "make_dirs ext [] s = (Inr (), s)"
| "make_dirs ext (key # keys) s =
     (case mkdir_if_missing ext key s of
        (Inl e, s') \<Rightarrow> (Inl e, s')
      | (Inr _, s') \<Rightarrow> make_dirs ext keys s')"

text \<open>
  Modelled from the spec: \<^verbatim>\<open>make_sure_path_exists\<close> of \<^verbatim>\<open>cookiecutter/utils.py\<close>
  is not among the sources.  Section 4.3 of the spec: it creates the directory and all
  missing intermediate ancestors, and a directory that is already there is not an
  error.  A file standing where a directory is needed is a failure of the file system.
\<close>

definition make_sure_path_exists :: "externals \<Rightarrow> string \<Rightarrow> state \<Rightarrow> (error + unit) \<times> state" where
  "make_sure_path_exists ext path s =
     (let key = os_path_abspath (cwd s) path
      in make_dirs ext (parents key @ [key]) s)"

text \<open>
  Modelled from the spec: \<^verbatim>\<open>work_in\<close> of \<^verbatim>\<open>cookiecutter/utils.py\<close> is not among
  the sources.  Sections 5 and 9 of the spec: the working directory is changed for the
  scope and restored on every exit from it, an error included.  Entering a directory
  that does not exist fails.  A body that does not return gives \<open>None\<close>.
\<close>

definition work_in :: "string \<Rightarrow> (state \<Rightarrow> ((error + 'a) \<times> state) option) \<Rightarrow> state \<Rightarrow> ((error + 'a) \<times> state) option" where
  "work_in dirname body s =
     (if os_path_isdir s dirname
      then (case body (s\<lparr>cwd := os_path_abspath (cwd s) dirname\<rparr>) of
              None \<Rightarrow> None
            | Some (r, s') \<Rightarrow> Some (r, s'\<lparr>cwd := cwd s\<rparr>))
      else Some (Inl OSError, s))"

section \<open>The template engine as the module uses it\<close>

text \<open>
  \<^verbatim>\<open>Template(src).render(**context)\<close>: the constructor compiles the source, then the
  template is rendered.
\<close>

definition Template_render :: "externals \<Rightarrow> string \<Rightarrow> dict \<Rightarrow> error + string" where
  "Template_render ext src context =
     (case jinja_compile ext src of
        Some e \<Rightarrow> Inl e
      | None \<Rightarrow> template_render ext src context)"

text \<open>
  \<^verbatim>\<open>env.get_template(name)\<close> with the loader \<^verbatim>\<open>FileSystemLoader(".")\<close>: the name is
  cut at \<^verbatim>\<open>/\<close>, a \<^verbatim>\<open>..\<close> piece is refused, the file is read under the working
  directory and its text compiled.  The result stands for the compiled template: its
  source text.
\<close>

definition env_get_template :: "externals \<Rightarrow> state \<Rightarrow> string \<Rightarrow> error + string" where
  "env_get_template ext s name =
     (let pieces = str_split CHR ''/'' name
      in if list_ex (\<lambda>piece. piece = ''..'') pieces then Inl TemplateNotFound
         else (case lookup s (os_path_join ''.''
                        (str_join ''/'' (filter (\<lambda>piece. piece \<noteq> [] \<and> piece \<noteq> ''.'') pieces))) of
                 None \<Rightarrow> Inl TemplateNotFound
               | Some (Dir _) \<Rightarrow> Inl TemplateNotFound
               | Some (File content mode) \<Rightarrow>
                   if may_read ext mode
                   then (case jinja_compile ext content of
                           Some e \<Rightarrow> Inl e
                         | None \<Rightarrow> Inr content)
                   else Inl IOError))"

text \<open>\<^verbatim>\<open>is_binary(infile)\<close> opens the file and tests what it reads.\<close>

definition is_binary :: "externals \<Rightarrow> state \<Rightarrow> string \<Rightarrow> error + bool" where
  "is_binary ext s filename =
     (case open_read ext s filename of
        Inl e \<Rightarrow> Inl e
      | Inr content \<Rightarrow> Inr (binary_content ext content))"

section \<open>generate\_file\<close>

text \<open>
  Lines 130 to 136: a \<^verbatim>\<open>TemplateSyntaxError\<close> of \<^verbatim>\<open>get_template\<close> is raised again
  with \<^verbatim>\<open>translated\<close> set to false; any other exception passes as it is.
\<close>

fun untranslated :: "error \<Rightarrow> error" where
  "untranslated (TemplateSyntaxError translated message) = TemplateSyntaxError False message"
| "untranslated e = e"

text \<open>
  Lines 124 to 142, the text branch.  \<^verbatim>\<open>unicode_open(outfile, 'w')\<close> of
  \<^verbatim>\<open>cookiecutter/utils.py\<close> opens the file for writing as UTF-8; a text and its
  bytes are the same string here.
\<close>

definition render_text_file :: "externals \<Rightarrow> string \<Rightarrow> string \<Rightarrow> dict \<Rightarrow> state \<Rightarrow> (error + unit) \<times> state" where
  "render_text_file ext infile outfile context s =
     (let infile_fwd_slashes = str_replace os_path_sep CHR ''/'' infile
      in case env_get_template ext s infile_fwd_slashes of
           Inl e \<Rightarrow> (Inl (untranslated e), s)
         | Inr tmpl \<Rightarrow>
             (case env_render ext s tmpl context of
                Inl e \<Rightarrow> (Inl e, s)
              | Inr rendered_file \<Rightarrow> write_file ext outfile rendered_file s))"

text \<open>
  \<^verbatim>\<open>generate_file\<close> (the name is a keyword of Isabelle, hence the suffix).
\<close>

definition generate_file_py :: "externals \<Rightarrow> string \<Rightarrow> string \<Rightarrow> dict \<Rightarrow> state \<Rightarrow> (error + unit) \<times> state" where
  "generate_file_py ext project_dir infile context s =
     (case Template_render ext infile context of
        Inl e \<Rightarrow> (Inl e, s)
      | Inr rendered \<Rightarrow>
          (let outfile = os_path_join project_dir rendered
           in (case is_binary ext s infile of
                 Inl e \<Rightarrow> (Inl e, s)
               | Inr binary \<Rightarrow>
                   (case (if binary then shutil_copyfile ext infile outfile s
                          else render_text_file ext infile outfile context s) of
                      (Inl e, s') \<Rightarrow> (Inl e, s')
                    | (Inr _, s') \<Rightarrow> shutil_copymode infile outfile s'))))"

section \<open>generate\_files\<close>

definition render_and_create_dir :: "externals \<Rightarrow> string \<Rightarrow> dict \<Rightarrow> string \<Rightarrow> state \<Rightarrow> (error + string) \<times> state" where
  "render_and_create_dir ext dirname context output_dir s =
     (case Template_render ext dirname context of
        Inl e \<Rightarrow> (Inl e, s)
      | Inr rendered_dirname \<Rightarrow>
          (let dir_to_create = os_path_normpath (os_path_join output_dir rendered_dirname)
           in (case make_sure_path_exists ext dir_to_create s of
                 (Inl e, s') \<Rightarrow> (Inl e, s')
               | (Inr _, s') \<Rightarrow> (Inr dir_to_create, s'))))"

definition ensure_dir_is_templated :: "string \<Rightarrow> error + bool" where
  "ensure_dir_is_templated dirname =
     (if str_in ''{{'' dirname \<and> str_in ''}}'' dirname then Inr True
      else Inl NonTemplatedInputDirException)"

text \<open>\<^verbatim>\<open>os.listdir\<close>: the names of the entries whose directory is the given one.\<close>

definition children :: "(string \<times> node) list \<Rightarrow> string \<Rightarrow> string list" where
  "children entries key =
     map (\<lambda>(k, n). snd (os_path_split k))
       (filter (\<lambda>(k, n). fst (os_path_split k) = key \<and> snd (os_path_split k) \<noteq> []) entries)"

definition os_listdir :: "state \<Rightarrow> string \<Rightarrow> string list option" where
  "os_listdir s p =
     (case lookup s p of
        Some (Dir _) \<Rightarrow> Some (children (fs s) (os_path_abspath (cwd s) p))
      | _ \<Rightarrow> None)"

text \<open>Lines 213 to 217 and 219 to 222: the two loops of the body.\<close>

fun for_dirs :: "externals \<Rightarrow> string \<Rightarrow> dict \<Rightarrow> string \<Rightarrow> string \<Rightarrow> string list \<Rightarrow> state \<Rightarrow> (error + unit) \<times> state" where
  "for_dirs ext project_dir context output_dir root [] s = (Inr (), s)"
| "for_dirs ext project_dir context output_dir root (d # dirs) s =
     (let unrendered_dir = os_path_join project_dir (os_path_join root d)
      in case render_and_create_dir ext unrendered_dir context output_dir s of
           (Inl e, s') \<Rightarrow> (Inl e, s')
         | (Inr _, s') \<Rightarrow> for_dirs ext project_dir context output_dir root dirs s')"

fun for_files :: "externals \<Rightarrow> string \<Rightarrow> dict \<Rightarrow> string \<Rightarrow> string list \<Rightarrow> state \<Rightarrow> (error + unit) \<times> state" where
  "for_files ext project_dir context root [] s = (Inr (), s)"
| "for_files ext project_dir context root (f # files) s =
     (let infile = os_path_join root f
      in case generate_file_py ext project_dir infile context s of
           (Inl e, s') \<Rightarrow> (Inl e, s')
         | (Inr _, s') \<Rightarrow> for_files ext project_dir context root files s')"

text \<open>
  \<^verbatim>\<open>os.walk\<close>, top down, is a generator: it lists a directory when it reaches it,
  hands \<^verbatim>\<open>(root, dirs, files)\<close> to the body of the loop, and only then descends
  into each of \<^verbatim>\<open>dirs\<close>, so it sees what the body has written.  A directory it
  cannot list is skipped.  The descent need not end (the project directory may lie
  inside the template), so it runs on fuel: \<open>None\<close> is a walk that has not returned.
\<close>

fun walk_subdirs :: "(string \<Rightarrow> state \<Rightarrow> ((error + unit) \<times> state) option) \<Rightarrow> string list \<Rightarrow> state \<Rightarrow> ((error + unit) \<times> state) option" where
  "walk_subdirs visit [] s = Some (Inr (), s)"
| "walk_subdirs visit (name # names) s =
     (case visit name s of
        None \<Rightarrow> None
      | Some (Inl e, s') \<Rightarrow> Some (Inl e, s')
      | Some (Inr _, s') \<Rightarrow> walk_subdirs visit names s')"

fun walk_generate :: "nat \<Rightarrow> externals \<Rightarrow> string \<Rightarrow> dict \<Rightarrow> string \<Rightarrow> string \<Rightarrow> state \<Rightarrow> ((error + unit) \<times> state) option" where
  "walk_generate 0 ext project_dir context output_dir root s = None"
| "walk_generate (Suc fuel) ext project_dir context output_dir root s =
     (case os_listdir s root of
        None \<Rightarrow> Some (Inr (), s)
      | Some names \<Rightarrow>
          (let dirs = filter (\<lambda>name. os_path_isdir s (os_path_join root name)) names;
               files = filter (\<lambda>name. \<not> os_path_isdir s (os_path_join root name)) names
           in (case for_dirs ext project_dir context output_dir root dirs s of
                 (Inl e, s1) \<Rightarrow> Some (Inl e, s1)
               | (Inr _, s1) \<Rightarrow>
                   (case for_files ext project_dir context root files s1 of
                      (Inl e, s2) \<Rightarrow> Some (Inl e, s2)
                    | (Inr _, s2) \<Rightarrow>
                        walk_subdirs
                          (\<lambda>name st. walk_generate fuel ext project_dir context output_dir
                                       (os_path_join root name) st)
                          dirs s2))))"

text \<open>
  \<^verbatim>\<open>generate_files\<close>.  The function has no \<^verbatim>\<open>return\<close> statement, so what a run
  that succeeds returns is \<^verbatim>\<open>None\<close>; the result is a \<open>string option\<close> so that
  returning a path can be stated.  The fuel is that of the walk: the depth to which it
  may descend.  Hooks are taken to return.
\<close>

definition generate_files :: "nat \<Rightarrow> externals \<Rightarrow> string \<Rightarrow> dict option \<Rightarrow> string \<Rightarrow> state \<Rightarrow> ((error + string option) \<times> state) option" where
  "generate_files fuel ext repo_dir context output_dir s =
     (case find_template ext repo_dir s of
        Inl e \<Rightarrow> Some (Inl e, s)
      | Inr template_dir \<Rightarrow>
          (let context' = (case context of None \<Rightarrow> [] | Some c \<Rightarrow> c);
               unrendered_dir = snd (os_path_split template_dir)
           in (case ensure_dir_is_templated unrendered_dir of
                 Inl e \<Rightarrow> Some (Inl e, s)
               | Inr _ \<Rightarrow>
                   (case render_and_create_dir ext unrendered_dir context' output_dir s of
                      (Inl e, s1) \<Rightarrow> Some (Inl e, s1)
                    | (Inr project_dir0, s1) \<Rightarrow>
                        (let project_dir = os_path_abspath (cwd s1) project_dir0
                         in (case work_in repo_dir
                                     (\<lambda>st. Some (run_hook ext ''pre_gen_project'' project_dir st)) s1 of
                               None \<Rightarrow> None
                             | Some (Inl e, s2) \<Rightarrow> Some (Inl e, s2)
                             | Some (Inr _, s2) \<Rightarrow>
                                 (case work_in template_dir
                                         (walk_generate fuel ext project_dir context' output_dir ''.'') s2 of
                                    None \<Rightarrow> None
                                  | Some (Inl e, s3) \<Rightarrow> Some (Inl e, s3)
                                  | Some (Inr _, s3) \<Rightarrow>
                                      (case work_in repo_dir
                                              (\<lambda>st. Some (run_hook ext ''post_gen_project'' project_dir st)) s3 of
                                         None \<Rightarrow> None
                                       | Some (Inl e, s4) \<Rightarrow> Some (Inl e, s4)
                                       | Some (Inr _, s4) \<Rightarrow> Some (Inr None, s4)))))))))"

section \<open>A concrete platform\<close>

text \<open>
  An instance of the parameters, to run the definitions on.  The parsers know a few
  documents, on which the real ones agree.
\<close>

definition toy_json_load :: "string \<Rightarrow> error + jval" where
  "toy_json_load doc =
     (if doc = ''{}'' then Inr (JObj [])
      else if doc = ''[]'' then Inr (JList [])
      else if doc = ''{'' @ [CHR 0x22] @ ''project_name'' @ [CHR 0x22] @ '': '' @ [CHR 0x22] @ ''demo'' @ [CHR 0x22] @ ''}''
        then Inr (JObj [(''project_name'', JStr ''demo'')])
      else Inl (Raised ''ValueError''))"

definition toy_yaml_load :: "string \<Rightarrow> error + jval" where
  "toy_yaml_load doc =
     (if doc = ''{}'' then Inr (JObj [])
      else if doc = ''project_name: demo'' then Inr (JObj [(''project_name'', JStr ''demo'')])
      else if doc = ''author: {name: A, email: E}''
        then Inr (JObj [(''author'', JObj [(''name'', JStr ''A''), (''email'', JStr ''E'')])])
      else Inl (Raised ''YAMLError''))"

text \<open>
  The engine with the settings the module builds it with, which are Jinja2's defaults
  (\<^verbatim>\<open>Template(infile)\<close> and \<^verbatim>\<open>Environment()\<close> pass no option): a name that the
  context does not define prints as the empty string (\<^verbatim>\<open>undefined=Undefined\<close>), and
  one newline at the end of a template source is dropped
  (\<^verbatim>\<open>keep_trailing_newline=False\<close>).  It covers the templates whose only markers
  are \<^verbatim>\<open>{{ name }}\<close> over a context of strings, and refuses the others.
\<close>

definition strip_spaces :: "string \<Rightarrow> string" where
  "strip_spaces s = rev (dropWhile (\<lambda>c. c = CHR '' '') (rev (dropWhile (\<lambda>c. c = CHR '' '') s)))"

definition value_text :: "dict \<Rightarrow> string \<Rightarrow> string" where
  "value_text context name = (case map_of context name of Some (JStr v) \<Rightarrow> v | _ \<Rightarrow> [])"

fun substitute :: "dict \<Rightarrow> string option \<Rightarrow> string \<Rightarrow> string" where
  "substitute context None (c # d # cs) =
     (if c = CHR ''{'' \<and> d = CHR ''{'' then substitute context (Some []) cs
      else c # substitute context None (d # cs))"
| "substitute context None cs = cs"
| "substitute context (Some name) (c # d # cs) =
     (if c = CHR ''}'' \<and> d = CHR ''}''
      then value_text context (strip_spaces name) @ substitute context None cs
      else substitute context (Some (name @ [c])) (d # cs))"
| "substitute context (Some name) cs = []"

fun unclosed :: "bool \<Rightarrow> string \<Rightarrow> bool" where
  "unclosed inside (c # d # cs) =
     (if \<not> inside \<and> c = CHR ''{'' \<and> d = CHR ''{'' then unclosed True cs
      else if inside \<and> c = CHR ''}'' \<and> d = CHR ''}'' then unclosed False cs
      else unclosed inside (d # cs))"
| "unclosed inside cs = inside"

definition default_compile :: "string \<Rightarrow> error option" where
  "default_compile src =
     (if str_in ''{%'' src \<or> str_in ''{#'' src then Some (Raised ''unsupported'')
      else if unclosed False src then Some (TemplateSyntaxError True ''unexpected end of template'')
      else None)"

definition strip_final_newline :: "string \<Rightarrow> string" where
  "strip_final_newline src = (if src \<noteq> [] \<and> last src = CHR 0x0A then butlast src else src)"

fun is_JStr :: "jval \<Rightarrow> bool" where
  "is_JStr (JStr v) = True"
| "is_JStr v = False"

definition default_render :: "string \<Rightarrow> dict \<Rightarrow> error + string" where
  "default_render src context =
     (if list_all is_JStr (map snd context)
      then Inr (substitute context None (strip_final_newline src))
      else Inl (Raised ''unsupported''))"



text \<open>A content is binary when it holds a NUL byte.\<close>

definition toy_binary_content :: "string \<Rightarrow> bool" where
  "toy_binary_content content = (CHR 0x00 \<in> set content)"

text \<open>
  A locator that returns the first subdirectory of the repository and leaves the test
  of its name to \<^verbatim>\<open>generate_files\<close>.
\<close>

definition toy_find_template :: "string \<Rightarrow> state \<Rightarrow> error + string" where
  "toy_find_template repo_dir s =
     (case os_listdir s repo_dir of
        None \<Rightarrow> Inl OSError
      | Some names \<Rightarrow>
          (case filter (\<lambda>name. os_path_isdir s (os_path_join repo_dir name)) names of
             [] \<Rightarrow> Inl NonTemplatedInputDirException
           | item # _ \<Rightarrow> Inr (os_path_join repo_dir item)))"

text \<open>
  A hook runner after section 4.6 of the spec: no script of that name in the working
  directory is a success; a script whose text is \<^verbatim>\<open>exit 1\<close> fails; any other
  script succeeds and writes nothing.
\<close>

definition toy_run_hook :: "string \<Rightarrow> string \<Rightarrow> state \<Rightarrow> (error + unit) \<times> state" where
  "toy_run_hook hook_name project_dir s =
     (case lookup s hook_name of
        Some (File script mode) \<Rightarrow>
          if script = ''exit 1'' then (Inl (Raised ''HookExecutionError''), s) else (Inr (), s)
      | _ \<Rightarrow> (Inr (), s))"

definition toy :: externals where
  "toy = \<lparr> json_load = toy_json_load, yaml_load = toy_yaml_load,
           jinja_compile = default_compile, template_render = default_render,
           env_render = (\<lambda>s. default_render), binary_content = toy_binary_content,
           find_template = toy_find_template, run_hook = toy_run_hook,
           may_read = (\<lambda>mode. mode div 256 mod 2 = 1),
           may_write = (\<lambda>mode. mode div 128 mod 2 = 1),
           new_file_mode = 420, new_dir_mode = 493 \<rparr>"


text \<open>
  The repository of the spec's end-to-end scenario (section 8, property 6): two hooks,
  and the templated directory with a text file and a binary file.
\<close>

definition demo_fs :: "(string \<times> node) list" where
  "demo_fs =
     [(''/'', Dir 493),
      (''/repo'', Dir 493),
      (''/repo/pre_gen_project'', File ''exit 0'' 493),
      (''/repo/post_gen_project'', File ''exit 0'' 493),
      (''/repo/{{project_name}}'', Dir 493),
      (''/repo/{{project_name}}/README.md'', File (''# {{project_name}}'' @ [CHR 0x0A]) 420),
      (''/repo/{{project_name}}/logo.png'', File ([CHR 0x89] @ ''PNG'' @ [CHR 0x00] @ ''{{ project_name }}'') 384),
      (''/repo/{{project_name}}/docs'', Dir 493),
      (''/repo/{{project_name}}/docs/{{project_name}}.txt'', File ''About {{ project_name }}'' 416),
      (''/repo/{{project_name}}/AUTHORS'', File ''{{author}}'' 420),
      (''/out'', Dir 493)]"

definition demo :: state where
  "demo = \<lparr> fs = demo_fs, cwd = ''/out'' \<rparr>"

definition demo_context :: dict where
  "demo_context = [(''project_name'', JStr ''demo'')]"

text \<open>A working directory with context files, and one without.\<close>

definition ctx_fs :: "(string \<times> node) list" where
  "ctx_fs =
     [(''/'', Dir 493),
      (''/w'', Dir 493),
      (''/w/cookiecutter.yml'', File ''author: {name: A, email: E}'' 420),
      (''/w/ctx.txt'', File ''['' 420),
      (''/w/bad.json'', File ''{'' 420),
      (''/w/bad.yml'', File ''['' 420),
      (''/w/secret.json'', File ''{}'' 0),
      (''/e'', Dir 493)]"

definition ctx_demo :: state where
  "ctx_demo = \<lparr> fs = ctx_fs, cwd = ''/w'' \<rparr>"

definition ctx_bare :: state where
  "ctx_bare = \<lparr> fs = ctx_fs, cwd = ''/e'' \<rparr>"




text \<open>
  A repository whose only subdirectory has a plain name, and a directory with no
  subdirectory at all.
\<close>

definition plain_demo :: state where
  "plain_demo =
     \<lparr> fs = [(''/'', Dir 493),
             (''/repo'', Dir 493),
             (''/repo/plainname'', Dir 493),
             (''/repo/plainname/README.md'', File ''readme'' 420),
             (''/bare'', Dir 493),
             (''/out'', Dir 493)],
       cwd = ''/out'' \<rparr>"

text \<open>What the run over the scenario's repository leaves, under the default engine.\<close>

definition demo_done :: state where
  "demo_done =
     \<lparr> fs = demo_fs @
             [(''/out/demo'', Dir 493),
              (''/out/demo/docs'', Dir 493),
              (''/out/demo/README.md'', File ''# demo'' 420),
              (''/out/demo/logo.png'', File ([CHR 0x89] @ ''PNG'' @ [CHR 0x00] @ ''{{ project_name }}'') 384),
              (''/out/demo/AUTHORS'', File [] 420),
              (''/out/demo/docs/demo.txt'', File ''About demo'' 416)],
       cwd = ''/out'' \<rparr>"

section \<open>Properties of generate\_context\<close>

subsection \<open>Updating an ordered mapping\<close>

lemma dict_update_lookup:
  "map_of (dict_update d other) = map_of d ++ map_of (rev other)"
  unfolding dict_update_def
  by (induction other arbitrary: d) (auto simp: update_conv' map_add_def fun_eq_iff split: option.splits)

lemma map_of_rev_distinct: "distinct (map fst xs) \<Longrightarrow> map_of (rev xs) = map_of xs"
  by (subst map_of_inject_set) (simp_all add: rev_map[symmetric] distinct_rev del: rev_map)

lemma update_absent: "k \<notin> fst ` set d \<Longrightarrow> AList.update k v d = d @ [(k, v)]"
  by (induction d) auto



subsection \<open>The overlay\<close>

text \<open>
  Claim C6.  When the context file loads as a mapping \<open>C\<close> and the overlay (a mapping,
  so its keys are distinct) has the value \<open>v\<close> at the key \<open>k\<close>,
  \<^verbatim>\<open>generate_context\<close> returns \<open>C\<close> updated by the overlay, whose value at \<open>k\<close> is
  \<open>v\<close> itself, whatever \<open>C\<close> held there: the value is replaced, never merged.  A key
  the overlay does not have keeps the value of \<open>C\<close>.
\<close>

theorem overlay_precedence:
  assumes "load_context ext s (resolve_context_file s context_file) = Inr (JObj C)"
    and "distinct (map fst overlay)"
    and "map_of overlay k = Some v"
  shows "generate_context ext context_file (Some overlay) s = Inr (JObj (dict_update C overlay))
       \<and> map_of (dict_update C overlay) k = Some v
       \<and> (\<forall>k'. map_of overlay k' = None \<longrightarrow> map_of (dict_update C overlay) k' = map_of C k')"
proof -
  from assms(3) have "overlay \<noteq> []" by auto
  with assms(1) have "generate_context ext context_file (Some overlay) s = Inr (JObj (dict_update C overlay))"
    by (simp add: generate_context_def apply_default_context_def)
  moreover have "map_of (dict_update C overlay) k = Some v"
    using assms(2,3) by (simp add: dict_update_lookup map_of_rev_distinct map_add_def)
  moreover have "\<forall>k'. map_of overlay k' = None \<longrightarrow> map_of (dict_update C overlay) k' = map_of C k'"
    using assms(2) by (simp add: dict_update_lookup map_of_rev_distinct map_add_def)
  ultimately show ?thesis by blast
qed

theorem overlay_precedence_witness:
  "load_context toy ctx_demo (resolve_context_file ctx_demo None)
     = Inr (JObj [(''author'', JObj [(''name'', JStr ''A''), (''email'', JStr ''E'')])])
   \<and> generate_context toy None (Some [(''author'', JObj [(''name'', JStr ''B'')])]) ctx_demo
     = Inr (JObj [(''author'', JObj [(''name'', JStr ''B'')])])"
proof -
  have h1: "load_context toy ctx_demo (resolve_context_file ctx_demo None)
     = Inr (JObj [(''author'', JObj [(''name'', JStr ''A''), (''email'', JStr ''E'')])])"
    by code_simp
  have h2: "distinct (map fst [(''author'', JObj [(''name'', JStr ''B'')])])" by simp
  have h3: "map_of [(''author'', JObj [(''name'', JStr ''B'')])] ''author'' = Some (JObj [(''name'', JStr ''B'')])"
    by simp
  from overlay_precedence[OF h1 h2 h3] h1 show ?thesis
    by (simp add: dict_update_def)
qed

subsection \<open>A file with another extension\<close>



subsection \<open>The fallback to cookiecutter.yml\<close>

text \<open>
  Claim C10.  When the caller names a context file that does not exist and
  \<^verbatim>\<open>cookiecutter.yml\<close> exists in the working directory, the file that is opened and
  parsed, as YAML, is \<^verbatim>\<open>cookiecutter.yml\<close>.
\<close>

theorem yaml_fallback_for_named_file:
  assumes "\<not> os_path_exists s f" and "os_path_exists s ''cookiecutter.yml''"
  shows "resolve_context_file s (Some f) = ''cookiecutter.yml''
       \<and> generate_context ext (Some f) default_context s
           = (case open_read ext s ''cookiecutter.yml'' of
                Inl e \<Rightarrow> Inl e
              | Inr doc \<Rightarrow>
                  (case yaml_load ext doc of
                     Inl e \<Rightarrow> Inl e
                   | Inr loaded \<Rightarrow> apply_default_context loaded default_context))"
proof -
  have r: "resolve_context_file s (Some f) = ''cookiecutter.yml''"
    using assms by (simp add: resolve_context_file_def)
  have e: "os_path_splitext (os_path_basename ''cookiecutter.yml'') = (''cookiecutter'', ''.yml'')"
    by (simp add: os_path_splitext_def os_path_basename_def rpartition_sep_def os_path_sep_def)
  show ?thesis
    by (simp add: r e generate_context_def load_context_def split: sum.splits)
qed

theorem yaml_fallback_for_named_file_witness:
  "\<not> os_path_exists ctx_demo ''missing.json'' \<and> os_path_exists ctx_demo ''cookiecutter.yml''
   \<and> generate_context toy (Some ''missing.json'') None ctx_demo
       = Inr (JObj [(''author'', JObj [(''name'', JStr ''A''), (''email'', JStr ''E'')])])"
proof -
  have h1: "\<not> os_path_exists ctx_demo ''missing.json''" by code_simp
  have h2: "os_path_exists ctx_demo ''cookiecutter.yml''" by code_simp
  have r: "open_read toy ctx_demo ''cookiecutter.yml'' = Inr ''author: {name: A, email: E}''" by code_simp
  have y: "yaml_load toy ''author: {name: A, email: E}'' = Inr (JObj [(''author'', JObj [(''name'', JStr ''A''), (''email'', JStr ''E'')])])"
    by code_simp
  from yaml_fallback_for_named_file[OF h1 h2, of toy None] h1 h2 show ?thesis
    by (simp add: r y apply_default_context_def)
qed

subsection \<open>Failures of loading\<close>

text \<open>
  Claim C3 as stated fails: a file that parses under neither format but whose extension
  is neither \<^verbatim>\<open>.json\<close> nor \<^verbatim>\<open>.yml\<close> is not parsed at all, and the call returns
  the empty context.
\<close>

theorem unparseable_context_counterexample:
  "open_read toy ctx_demo ''ctx.txt'' = Inr ''[''
   \<and> json_load toy ''['' = Inl (Raised ''ValueError'')
   \<and> yaml_load toy ''['' = Inl (Raised ''YAMLError'')
   \<and> generate_context toy (Some ''ctx.txt'') None ctx_demo = Inr (JObj [])"
  by code_simp

text \<open>
  Claim C3, amended.  \<^verbatim>\<open>generate_context\<close> fails and returns no context when the
  resolved context file is missing or unreadable (the \<^verbatim>\<open>IOError\<close> of
  \<^verbatim>\<open>open\<close>), and when its extension is \<^verbatim>\<open>.json\<close> or \<^verbatim>\<open>.yml\<close> and the
  one parser that extension selects rejects its text (the parser's own exception).
\<close>

theorem context_load_errors:
  "(\<not> os_path_exists s (resolve_context_file s context_file)
      \<longrightarrow> generate_context ext context_file default_context s = Inl IOError)
 \<and> ((\<exists>content mode. lookup s (resolve_context_file s context_file) = Some (File content mode) \<and> \<not> may_read ext mode)
      \<longrightarrow> generate_context ext context_file default_context s = Inl IOError)
 \<and> (open_read ext s (resolve_context_file s context_file) = Inr doc
      \<and> snd (os_path_splitext (os_path_basename (resolve_context_file s context_file))) = ''.json''
      \<and> json_load ext doc = Inl e
      \<longrightarrow> generate_context ext context_file default_context s = Inl e)
 \<and> (open_read ext s (resolve_context_file s context_file) = Inr doc
      \<and> snd (os_path_splitext (os_path_basename (resolve_context_file s context_file))) = ''.yml''
      \<and> yaml_load ext doc = Inl e
      \<longrightarrow> generate_context ext context_file default_context s = Inl e)"
  by (auto simp: generate_context_def load_context_def open_read_def os_path_exists_def
           split: prod.splits option.splits node.splits)

theorem context_load_errors_witness:
  "\<not> os_path_exists ctx_bare (resolve_context_file ctx_bare None)
   \<and> generate_context toy None None ctx_bare = Inl IOError
   \<and> lookup ctx_demo (resolve_context_file ctx_demo (Some ''secret.json'')) = Some (File ''{}'' 0)
   \<and> \<not> may_read toy 0
   \<and> generate_context toy (Some ''secret.json'') None ctx_demo = Inl IOError
   \<and> open_read toy ctx_demo (resolve_context_file ctx_demo (Some ''bad.json'')) = Inr ''{''
   \<and> generate_context toy (Some ''bad.json'') None ctx_demo = Inl (Raised ''ValueError'')
   \<and> open_read toy ctx_demo (resolve_context_file ctx_demo (Some ''bad.yml'')) = Inr ''[''
   \<and> generate_context toy (Some ''bad.yml'') None ctx_demo = Inl (Raised ''YAMLError'')"
proof -
  have a1: "\<not> os_path_exists ctx_bare (resolve_context_file ctx_bare None)" by code_simp
  have b1: "lookup ctx_demo (resolve_context_file ctx_demo (Some ''secret.json'')) = Some (File ''{}'' 0)" by code_simp
  have b2: "\<not> may_read toy 0" by code_simp
  have c1: "open_read toy ctx_demo (resolve_context_file ctx_demo (Some ''bad.json'')) = Inr ''{''" by code_simp
  have c2: "snd (os_path_splitext (os_path_basename (resolve_context_file ctx_demo (Some ''bad.json'')))) = ''.json''" by code_simp
  have c3: "json_load toy ''{'' = Inl (Raised ''ValueError'')" by code_simp
  have d1: "open_read toy ctx_demo (resolve_context_file ctx_demo (Some ''bad.yml'')) = Inr ''[''" by code_simp
  have d2: "snd (os_path_splitext (os_path_basename (resolve_context_file ctx_demo (Some ''bad.yml'')))) = ''.yml''" by code_simp
  have d3: "yaml_load toy ''['' = Inl (Raised ''YAMLError'')" by code_simp
  from context_load_errors[of ctx_bare None toy None]
       context_load_errors[of ctx_demo "Some ''secret.json''" toy None]
       context_load_errors[of ctx_demo "Some ''bad.json''" toy None "''{''" "Raised ''ValueError''"]
       context_load_errors[of ctx_demo "Some ''bad.yml''" toy None "''[''" "Raised ''YAMLError''"]
       a1 b1 b2 c1 c2 c3 d1 d2 d3
  show ?thesis by simp
qed

section \<open>Properties of the paths\<close>



















section \<open>Properties of generate\_file\<close>

subsection \<open>Writing and the permission bits\<close>









subsection \<open>Binary files\<close>



subsection \<open>Text files\<close>




subsection \<open>Errors of rendering\<close>




section \<open>Properties of generate\_files\<close>

subsection \<open>Creating directories\<close>

lemma split_shorter:
  assumes "snd (os_path_split p) \<noteq> []"
  shows "length (fst (os_path_split p)) < length p"
proof -
  let ?P = "\<lambda>c. c \<noteq> os_path_sep"
  have tail: "takeWhile ?P (rev p) \<noteq> []"
    using assms by (simp add: os_path_split_def rpartition_sep_def)
  have "length (takeWhile ?P (rev p)) + length (dropWhile ?P (rev p)) = length p"
    by (metis length_append length_rev takeWhile_dropWhile_id)
  with tail have short: "length (dropWhile ?P (rev p)) < length p"
    by (cases "takeWhile ?P (rev p)") auto
  have "length (fst (os_path_split p)) \<le> length (dropWhile ?P (rev p))"
    by (simp add: os_path_split_def rpartition_sep_def rstrip_sep_def length_dropWhile_le)
  with short show ?thesis by simp
qed

lemma parents_shorter: "k \<in> set (parents p) \<Longrightarrow> length k < length p"
proof (induction p arbitrary: k rule: parents.induct)
  case (1 p)
  show ?case
  proof (cases "snd (os_path_split p) = [] \<or> fst (os_path_split p) = []")
    case True
    with "1.prems" show ?thesis by (simp add: parents.simps[of p])
  next
    case False
    then have h: "length (fst (os_path_split p)) < length p" by (simp add: split_shorter)
    from "1.prems" False have "k \<in> set (parents (fst (os_path_split p))) \<or> k = fst (os_path_split p)"
      by (auto simp: parents.simps[of p])
    then show ?thesis
    proof
      assume "k \<in> set (parents (fst (os_path_split p)))"
      from "1.IH"[OF False this] h show ?thesis by simp
    next
      assume "k = fst (os_path_split p)"
      with h show ?thesis by simp
    qed
  qed
qed

lemma normpath_nonempty: "os_path_normpath p \<noteq> []"
  by (simp add: os_path_normpath_def Let_def)


lemma children_not_below:
  assumes "\<forall>k \<in> fst ` set new. length k \<le> length key"
  shows "children new key = []"
proof -
  have "\<not> (fst (os_path_split k) = key \<and> snd (os_path_split k) \<noteq> [])" if "(k, n) \<in> set new" for k n
  proof
    assume a: "fst (os_path_split k) = key \<and> snd (os_path_split k) \<noteq> []"
    then have "length key < length k" using split_shorter[of k] by simp
    moreover from that have "k \<in> fst ` set new" by force
    ultimately show False using assms by fastforce
  qed
  then show ?thesis by (auto simp: children_def filter_empty_conv)
qed

lemma mkdir_if_missing_Inr:
  assumes "mkdir_if_missing ext k s = (Inr u, s')"
  shows "cwd s' = cwd s \<and> (\<exists>m. map_of (fs s') k = Some (Dir m))
       \<and> (\<exists>new. fs s' = fs s @ new \<and> fst ` set new \<subseteq> {k})
       \<and> (\<forall>k' n. map_of (fs s) k' = Some n \<longrightarrow> map_of (fs s') k' = Some n)"
proof (cases "map_of (fs s) k")
  case None
  then have "k \<notin> fst ` set (fs s)" by (simp add: map_of_eq_None_iff)
  then have "AList.update k (Dir (new_dir_mode ext)) (fs s) = fs s @ [(k, Dir (new_dir_mode ext))]"
    by (rule update_absent)
  with assms None show ?thesis
    by (auto simp: mkdir_if_missing_def map_add_def split: option.splits)
next
  case (Some n)
  with assms show ?thesis
    by (cases n) (auto simp: mkdir_if_missing_def)
qed

lemma make_dirs_Inr:
  "make_dirs ext ks s = (Inr u, s') \<Longrightarrow>
     cwd s' = cwd s \<and> (\<forall>k \<in> set ks. \<exists>m. map_of (fs s') k = Some (Dir m))
       \<and> (\<exists>new. fs s' = fs s @ new \<and> fst ` set new \<subseteq> set ks)
       \<and> (\<forall>k' n. map_of (fs s) k' = Some n \<longrightarrow> map_of (fs s') k' = Some n)"
proof (induction ks arbitrary: s)
  case Nil
  then show ?case by simp
next
  case (Cons k ks)
  from Cons.prems obtain u1 s1 where
    a: "mkdir_if_missing ext k s = (Inr u1, s1)" and b: "make_dirs ext ks s1 = (Inr u, s')"
    by (auto split: prod.splits sum.splits)
  from mkdir_if_missing_Inr[OF a] obtain new1 where
    a1: "cwd s1 = cwd s" and a2: "\<exists>m. map_of (fs s1) k = Some (Dir m)" and
    a3: "fs s1 = fs s @ new1" "fst ` set new1 \<subseteq> {k}" and
    a4: "\<forall>k' n. map_of (fs s) k' = Some n \<longrightarrow> map_of (fs s1) k' = Some n"
    by blast
  from Cons.IH[OF b] obtain new2 where
    b1: "cwd s' = cwd s1" and b2: "\<forall>k \<in> set ks. \<exists>m. map_of (fs s') k = Some (Dir m)" and
    b3: "fs s' = fs s1 @ new2" "fst ` set new2 \<subseteq> set ks" and
    b4: "\<forall>k' n. map_of (fs s1) k' = Some n \<longrightarrow> map_of (fs s') k' = Some n"
    by blast
  have "fs s' = fs s @ (new1 @ new2)" using a3 b3 by simp
  moreover have "fst ` set (new1 @ new2) \<subseteq> set (k # ks)" using a3 b3 by auto
  ultimately have "\<exists>new. fs s' = fs s @ new \<and> fst ` set new \<subseteq> set (k # ks)" by blast
  moreover have "\<forall>k' \<in> set (k # ks). \<exists>m. map_of (fs s') k' = Some (Dir m)"
    using a2 b2 b4 by auto
  ultimately show ?case using a1 b1 a4 b4 by auto
qed

text \<open>What render_and_create_dir has done when it returns a directory.\<close>

lemma render_and_create_dir_Inr:
  assumes "render_and_create_dir ext dirname context output_dir s = (Inr project_dir, s1)"
  shows "cwd s1 = cwd s \<and> os_path_isdir s1 project_dir
       \<and> (\<exists>rendered. Template_render ext dirname context = Inr rendered
              \<and> project_dir = os_path_normpath (os_path_join output_dir rendered))
       \<and> (\<exists>new. fs s1 = fs s @ new \<and> children new (os_path_abspath (cwd s) project_dir) = [])"
proof -
  from assms obtain rendered where r: "Template_render ext dirname context = Inr rendered"
    by (auto simp: render_and_create_dir_def split: sum.splits)
  let ?d = "os_path_normpath (os_path_join output_dir rendered)"
  let ?key = "os_path_abspath (cwd s) ?d"
  from assms r obtain u where
    m: "make_dirs ext (parents ?key @ [?key]) s = (Inr u, s1)" and pd: "project_dir = ?d"
    by (auto simp: render_and_create_dir_def make_sure_path_exists_def Let_def split: prod.splits sum.splits)
  from make_dirs_Inr[OF m] have c: "cwd s1 = cwd s"
    and d0: "\<forall>k \<in> set (parents ?key @ [?key]). \<exists>m. map_of (fs s1) k = Some (Dir m)"
    and n0: "\<exists>new. fs s1 = fs s @ new \<and> fst ` set new \<subseteq> set (parents ?key @ [?key])"
    by blast+
  from d0 have d: "\<exists>m. map_of (fs s1) ?key = Some (Dir m)" by simp
  from n0 obtain new where
    n: "fs s1 = fs s @ new" "fst ` set new \<subseteq> set (parents ?key @ [?key])"
    by blast
  have "os_path_isdir s1 project_dir"
    using d c by (auto simp: os_path_isdir_def lookup_def pd normpath_nonempty)
  moreover have "\<forall>k \<in> fst ` set new. length k \<le> length ?key"
    using n(2) parents_shorter[of _ ?key] by fastforce
  then have "children new ?key = []" by (rule children_not_below)
  ultimately show ?thesis using c r pd n(1) by auto
qed

subsection \<open>A template root without markers\<close>

text \<open>
  Claim C7.  When the name of the directory that the locator returns lacks
  \<^verbatim>\<open>{{\<close> or lacks \<^verbatim>\<open>}}\<close>, \<^verbatim>\<open>generate_files\<close> fails with
  \<^verbatim>\<open>NonTemplatedInputDirException\<close> and the file system is the one it started from:
  nothing has been created.  The same holds when the locator itself fails, which is
  how \<^verbatim>\<open>find_template\<close> may report that no directory is templated.
\<close>

theorem untemplated_root_rejected:
  "(find_template ext repo_dir s = Inl e
      \<longrightarrow> generate_files fuel ext repo_dir ctx output_dir s = Some (Inl e, s))
 \<and> (find_template ext repo_dir s = Inr template_dir
      \<and> \<not> (str_in ''{{'' (snd (os_path_split template_dir)) \<and> str_in ''}}'' (snd (os_path_split template_dir)))
      \<longrightarrow> generate_files fuel ext repo_dir ctx output_dir s
            = Some (Inl NonTemplatedInputDirException, s))"
  by (auto simp: generate_files_def ensure_dir_is_templated_def Let_def)

theorem untemplated_root_rejected_witness:
  "find_template toy ''/repo'' plain_demo = Inr ''/repo/plainname''
   \<and> \<not> str_in ''{{'' (snd (os_path_split ''/repo/plainname''))
   \<and> generate_files 3 toy ''/repo'' None ''.'' plain_demo
       = Some (Inl NonTemplatedInputDirException, plain_demo)
   \<and> find_template toy ''/bare'' plain_demo = Inl NonTemplatedInputDirException
   \<and> generate_files 3 toy ''/bare'' None ''.'' plain_demo
       = Some (Inl NonTemplatedInputDirException, plain_demo)"
proof -
  have a1: "find_template toy ''/repo'' plain_demo = Inr ''/repo/plainname''" by code_simp
  have a2: "\<not> str_in ''{{'' (snd (os_path_split ''/repo/plainname''))" by code_simp
  have b1: "find_template toy ''/bare'' plain_demo = Inl NonTemplatedInputDirException" by code_simp
  from untemplated_root_rejected[where ext = toy and repo_dir = "''/repo''" and s = plain_demo
         and template_dir = "''/repo/plainname''" and fuel = 3 and ctx = None and output_dir = "''.''"]
       a1 a2
  have A: "generate_files 3 toy ''/repo'' None ''.'' plain_demo = Some (Inl NonTemplatedInputDirException, plain_demo)"
    by blast
  from untemplated_root_rejected[where ext = toy and repo_dir = "''/bare''" and s = plain_demo
         and e = NonTemplatedInputDirException and fuel = 3 and ctx = None and output_dir = "''.''"]
       b1
  have B: "generate_files 3 toy ''/bare'' None ''.'' plain_demo = Some (Inl NonTemplatedInputDirException, plain_demo)"
    by blast
  from a1 a2 A b1 B show ?thesis by blast
qed

subsection \<open>A pre-generation hook that fails\<close>



subsection \<open>What generate\_files returns\<close>

text \<open>
  Claim C1 as stated fails: \<^verbatim>\<open>generate_files\<close> ends without a \<^verbatim>\<open>return\<close>
  statement, so a run that succeeds returns \<^verbatim>\<open>None\<close> and not the path of the
  project directory it has created.
\<close>

theorem returns_path_counterexample:
  "generate_files 3 toy ''/repo'' (Some demo_context) ''.'' demo = Some (Inr None, demo_done)
   \<and> os_path_isdir demo_done ''/out/demo''
   \<and> os_path_abspath (cwd demo) (os_path_normpath (os_path_join ''.'' ''demo'')) = ''/out/demo''
   \<and> generate_files 3 toy ''/repo'' (Some demo_context) ''.'' demo \<noteq> Some (Inr (Some ''/out/demo''), demo_done)"
proof -
  have run: "generate_files 3 toy ''/repo'' (Some demo_context) ''.'' demo = Some (Inr None, demo_done)"
    by code_simp
  have dir: "os_path_isdir demo_done ''/out/demo''" by code_simp
  have path: "os_path_abspath (cwd demo) (os_path_normpath (os_path_join ''.'' ''demo'')) = ''/out/demo''"
    by code_simp
  from run dir path show ?thesis by simp
qed

text \<open>
  Claim C1, amended.  A run of \<^verbatim>\<open>generate_files\<close> that succeeds returns
  \<^verbatim>\<open>None\<close>.  It has rendered and created the project directory under the output
  directory, and has handed the absolute path of that directory to the pre-generation
  hook, which succeeded.
\<close>

theorem generate_files_returns_None:
  assumes "generate_files fuel ext repo_dir context output_dir s = Some (Inr r, s')"
  shows "r = None
       \<and> (\<exists>template_dir project_dir s1 s2.
             find_template ext repo_dir s = Inr template_dir
           \<and> render_and_create_dir ext (snd (os_path_split template_dir))
                 (case context of None \<Rightarrow> [] | Some c \<Rightarrow> c) output_dir s = (Inr project_dir, s1)
           \<and> os_path_isdir s1 project_dir
           \<and> run_hook ext ''pre_gen_project'' (os_path_abspath (cwd s1) project_dir)
                 (s1\<lparr>cwd := os_path_abspath (cwd s1) repo_dir\<rparr>) = (Inr (), s2))"
proof -
  from assms obtain template_dir where loc: "find_template ext repo_dir s = Inr template_dir"
    by (auto simp: generate_files_def split: sum.splits)
  from assms loc obtain project_dir s1 where
    root: "render_and_create_dir ext (snd (os_path_split template_dir))
                 (case context of None \<Rightarrow> [] | Some c \<Rightarrow> c) output_dir s = (Inr project_dir, s1)"
    by (auto simp: generate_files_def Let_def split: sum.splits prod.splits)
  from assms loc root obtain s2 where
    hook: "run_hook ext ''pre_gen_project'' (os_path_abspath (cwd s1) project_dir)
                 (s1\<lparr>cwd := os_path_abspath (cwd s1) repo_dir\<rparr>) = (Inr (), s2)"
    by (cases "run_hook ext ''pre_gen_project'' (os_path_abspath (cwd s1) project_dir)
                 (s1\<lparr>cwd := os_path_abspath (cwd s1) repo_dir\<rparr>)")
       (auto simp: generate_files_def work_in_def Let_def split: sum.splits if_splits)
  from assms loc root have "r = None"
    by (auto simp: generate_files_def Let_def split: sum.splits prod.splits option.splits)
  moreover from render_and_create_dir_Inr[OF root] have "os_path_isdir s1 project_dir" by blast
  ultimately show ?thesis using loc root hook by blast
qed

theorem generate_files_returns_None_witness:
  "generate_files 3 toy ''/repo'' (Some demo_context) ''.'' demo = Some (Inr None, demo_done)
   \<and> (\<exists>template_dir project_dir s1 s2.
         find_template toy ''/repo'' demo = Inr template_dir
       \<and> render_and_create_dir toy (snd (os_path_split template_dir)) demo_context ''.'' demo = (Inr project_dir, s1)
       \<and> os_path_isdir s1 project_dir
       \<and> run_hook toy ''pre_gen_project'' (os_path_abspath (cwd s1) project_dir)
             (s1\<lparr>cwd := os_path_abspath (cwd s1) ''/repo''\<rparr>) = (Inr (), s2))"
proof -
  have run: "generate_files 3 toy ''/repo'' (Some demo_context) ''.'' demo = Some (Inr None, demo_done)"
    by code_simp
  from generate_files_returns_None[OF run] run show ?thesis by simp
qed

end
